theory Spec2Isabelle
  imports Complex_Main
begin

section \<open>birthstar.py: constants and values\<close>

text \<open>
  Python floats are modelled as \<^typ>\<open>real\<close> and every float literal denotes its decimal
  value, so the arithmetic below is exact; only \<open>when_will_light_hit\<close>, whose date can turn
  on the rounding of a double, takes the arithmetic of the platform as a parameter. Python's
  unbounded integers are \<^typ>\<open>int\<close>.
  A Python \<open>str\<close> is a \<^typ>\<open>string\<close>; a character outside ASCII is written as its
  UTF-8 bytes.
\<close>

text \<open>\<open>SECS_IN_YEAR = 31557600\<close>: the seconds of one Julian year of 365.25 days.\<close>

definition SECS_IN_YEAR :: int where
  "SECS_IN_YEAR = 31557600"

text \<open>\<open>LIGHT_YEARS_IN_1_PARSEC = 3.26163344\<close>\<close>

definition LIGHT_YEARS_IN_1_PARSEC :: real where
  "LIGHT_YEARS_IN_1_PARSEC = 3.26163344"

text \<open>The exceptions that the modelled functions can raise.\<close>

datatype error = KeyError | TypeError | OverflowError

text \<open>
  The \<open>hip_id\<close> argument of \<open>Star.__init__\<close> is a dynamically typed value: the HYG
  database records it as a number, the docstring asks for an empty string when it is not
  known. \<open>py_ne_empty v\<close> is Python's \<open>v != ""\<close> and \<open>str_py v\<close> is \<open>str(v)\<close>.
\<close>

datatype py_value = PyStr string | PyInt int

fun py_ne_empty :: "py_value \<Rightarrow> bool" where
  "py_ne_empty (PyStr s) = (s \<noteq> '''')"
| "py_ne_empty (PyInt i) = True"

definition digit_char :: "nat \<Rightarrow> char" where
  "digit_char d = ''0123456789'' ! d"

fun str_nat :: "nat \<Rightarrow> string" where
  "str_nat n = (if n < 10 then [digit_char n] else str_nat (n div 10) @ [digit_char (n mod 10)])"

declare str_nat.simps [simp del]

definition str_int :: "int \<Rightarrow> string" where
  "str_int i = (if i < 0 then CHR ''-'' # str_nat (nat (- i)) else str_nat (nat i))"

fun str_py :: "py_value \<Rightarrow> string" where
  "str_py (PyStr s) = s"
| "str_py (PyInt i) = str_int i"

section \<open>class Star\<close>

text \<open>
  The attributes that \<open>Star.__init__\<close> sets (\<open>self._database_id\<close>, \<open>self._hip_id\<close>, ...),
  without the leading underscore. An optional text attribute that is not known is the empty string,
  as the constructor's docstring asks. The colour index is a float or the empty string:
  \<open>None\<close> stands for the empty string, \<open>Some c\<close> for the float \<open>c\<close>.
\<close>

record star =
  database_id :: int
  gl_id :: string
  distance :: real
  proper_name :: string
  magnitude :: real
  color :: "real option"
  constellation :: string
  hip_id :: string

text \<open>\<open>Star.__init__\<close>, with the arguments in the order of the source.\<close>

definition Star ::
  "int \<Rightarrow> py_value \<Rightarrow> string \<Rightarrow> string \<Rightarrow> real \<Rightarrow> real \<Rightarrow> real option \<Rightarrow> string \<Rightarrow> star" where
  "Star database_id' hip_id' gl_id' proper_name' distance' magnitude' color' constellation' =
     \<lparr> database_id = database_id',
       gl_id = gl_id',
       distance = distance',
       proper_name = proper_name',
       magnitude = magnitude',
       color = color',
       constellation = constellation',
       hip_id = (if py_ne_empty hip_id' then ''HIP '' @ str_py hip_id' else '''') \<rparr>"

text \<open>\<open>Star.get_color\<close>\<close>

definition get_color :: "star \<Rightarrow> string" where
  "get_color s =
     (case color s of
        Some c \<Rightarrow> if c < 0.35 then ''blue'' else if c < 0.8 then ''yellow'' else ''red''
      | None \<Rightarrow> ''red'')"

text \<open>\<open>Star.has_proper_name\<close> and \<open>Star.has_constellation\<close>\<close>

definition has_proper_name :: "star \<Rightarrow> bool" where
  "has_proper_name s = (proper_name s \<noteq> '''')"

definition has_constellation :: "star \<Rightarrow> bool" where
  "has_constellation s = (constellation s \<noteq> '''')"

text \<open>\<open>Star.is_visible\<close>\<close>

definition is_visible :: "star \<Rightarrow> bool" where
  "is_visible s = (magnitude s < 6.5)"

text \<open>\<open>Star.get_identifier\<close>\<close>

definition get_identifier :: "star \<Rightarrow> string" where
  "get_identifier s = (if hip_id s \<noteq> '''' then hip_id s else gl_id s)"

text \<open>\<open>Star.get_distance_in_lightyears\<close>\<close>

definition get_distance_in_lightyears :: "star \<Rightarrow> real" where
  "get_distance_in_lightyears s = distance s * LIGHT_YEARS_IN_1_PARSEC"

section \<open>The constellation table\<close>

text \<open>
  \<open>CONST_ABBREV\<close>, the dictionary literal of the source, entry by entry in its order. The name of
  \<open>Boo\<close> holds two characters outside ASCII in the source file; they stand here as their UTF-8
  bytes. \<open>CONST_ABBREV[k]\<close> is \<open>map_of CONST_ABBREV k\<close>, and raises \<open>KeyError\<close> when it is
  \<open>None\<close>.
\<close>

definition CONST_ABBREV :: "(string \<times> string) list" where
  "CONST_ABBREV =
    [(''And'', ''Andromeda''),
     (''Ant'', ''Antlia''),
     (''Aps'', ''Apus''),
     (''Aqr'', ''Aquarius''),
     (''Aql'', ''Aquila''),
     (''Ara'', ''Ara''),
     (''Ari'', ''Aries''),
     (''Aur'', ''Auriga''),
     (''Boo'', ''Bo'' @ [CHR 0xE2, CHR 0x88, CHR 0x9A] @ [CHR 0xE2, CHR 0x88, CHR 0x82] @ ''tes''),
     (''Cae'', ''Caelum''),
     (''Cam'', ''Camelopardalis''),
     (''Cnc'', ''Cancer''),
     (''CVn'', ''Canes Venatici''),
     (''CMa'', ''Canis Major''),
     (''CMi'', ''Canis Minor''),
     (''Cap'', ''Capricornus''),
     (''Car'', ''Carina''),
     (''Cas'', ''Cassiopeia''),
     (''Cen'', ''Centaurus''),
     (''Cep'', ''Cepheus''),
     (''Cet'', ''Cetus''),
     (''Cha'', ''Chamaeleon''),
     (''Cir'', ''Circinus''),
     (''Col'', ''Columba''),
     (''Com'', ''Coma Berenices''),
     (''CrA'', ''Corona Australis''),
     (''CrB'', ''Corona Borealis''),
     (''Crv'', ''Corvus''),
     (''Crt'', ''Crater''),
     (''Cru'', ''Crux''),
     (''Cyg'', ''Cygnus''),
     (''Del'', ''Delphinus''),
     (''Dor'', ''Dorado''),
     (''Dra'', ''Draco''),
     (''Equ'', ''Equuleus''),
     (''Eri'', ''Eridanus''),
     (''For'', ''Fornax''),
     (''Gem'', ''Gemini''),
     (''Gru'', ''Grus''),
     (''Her'', ''Hercules''),
     (''Hor'', ''Horologium''),
     (''Hya'', ''Hydra''),
     (''Hyi'', ''Hydrus''),
     (''Ind'', ''Indus''),
     (''Lac'', ''Lacerta''),
     (''Leo'', ''Leo''),
     (''LMi'', ''Leo Minor''),
     (''Lep'', ''Lepus''),
     (''Lib'', ''Libra''),
     (''Lup'', ''Lupus''),
     (''Lyn'', ''Lynx''),
     (''Lyr'', ''Lyra''),
     (''Men'', ''Mensa''),
     (''Mic'', ''Microscopium''),
     (''Mon'', ''Monoceros''),
     (''Mus'', ''Musca''),
     (''Nor'', ''Norma''),
     (''Oct'', ''Octans''),
     (''Oph'', ''Ophiuchus''),
     (''Ori'', ''Orion''),
     (''Pav'', ''Pavo''),
     (''Peg'', ''Pegasus''),
     (''Per'', ''Perseus''),
     (''Phe'', ''Phoenix''),
     (''Pic'', ''Pictor''),
     (''Psc'', ''Pisces''),
     (''PsA'', ''Piscis Austrinus''),
     (''Pup'', ''Puppis''),
     (''Pyx'', ''Pyxis''),
     (''Ret'', ''Reticulum''),
     (''Sge'', ''Sagitta (not to be confused with Sagittarius)''),
     (''Sgr'', ''Sagittarius''),
     (''Sco'', ''Scorpius''),
     (''Scl'', ''Sculptor''),
     (''Sct'', ''Scutum''),
     (''Ser'', ''Serpens''),
     (''Sex'', ''Sextans''),
     (''Tau'', ''Taurus''),
     (''Tel'', ''Telescopium''),
     (''Tri'', ''Triangulum''),
     (''TrA'', ''Triangulum Australe''),
     (''Tuc'', ''Tucana''),
     (''UMa'', ''Ursa Major''),
     (''UMi'', ''Ursa Minor''),
     (''Vel'', ''Vela''),
     (''Vir'', ''Virgo''),
     (''Vol'', ''Volans''),
     (''Vul'', ''Vulpecula'')]"

text \<open>\<open>Star.get_constellation\<close>\<close>

definition get_constellation :: "star \<Rightarrow> error + string" where
  "get_constellation s =
     (case map_of CONST_ABBREV (constellation s) of
        None \<Rightarrow> Inl KeyError
      | Some n \<Rightarrow> Inr n)"

section \<open>Dates, moments and durations\<close>

text \<open>
  A \<open>datetime.date\<close> is its proleptic Gregorian ordinal (\<open>date.toordinal()\<close>): 1 is the first
  of January of year 1 (\<open>date.min\<close>) and 3652059 the last day of year 9999 (\<open>date.max\<close>).
  A \<open>datetime.datetime\<close> is the number of microseconds between midnight of ordinal 0 and the
  moment, so that \<open>.date()\<close> is a division by the microseconds of a day. A
  \<open>datetime.timedelta\<close> is its whole number of microseconds.
\<close>

type_synonym date = int
type_synonym datetime = int
type_synonym timedelta = int

definition US_PER_DAY :: int where
  "US_PER_DAY = 86400000000"

definition valid_date :: "date \<Rightarrow> bool" where
  "valid_date d = (1 \<le> d \<and> d \<le> 3652059)"

text \<open>\<open>datetime.date()\<close>\<close>

definition datetime_date :: "datetime \<Rightarrow> date" where
  "datetime_date t = t div US_PER_DAY"

definition valid_datetime :: "datetime \<Rightarrow> bool" where
  "valid_datetime t = valid_date (datetime_date t)"

text \<open>
  \<open>date - date\<close>: a duration of whole days. Between two dates of the range it is at most
  3652058 days long, far inside the range of \<open>timedelta\<close>, so the subtraction never raises.
\<close>

definition date_sub :: "date \<Rightarrow> date \<Rightarrow> timedelta" where
  "date_sub d1 d2 = (d1 - d2) * US_PER_DAY"

text \<open>\<open>timedelta.total_seconds()\<close>\<close>

definition total_seconds :: "timedelta \<Rightarrow> real" where
  "total_seconds td = real_of_int td / 1000000"

text \<open>
  The constructor of \<open>timedelta\<close> rounds a fractional number of microseconds to the nearest
  whole one, a half to the even neighbour.
\<close>

definition round_half_even :: "real \<Rightarrow> int" where
  "round_half_even x =
     (let f = \<lfloor>x\<rfloor>; r = x - real_of_int f
      in if r < 1 / 2 then f
         else if 1 / 2 < r then f + 1
         else if even f then f else f + 1)"

text \<open>
  The arithmetic of doubles. The date that \<open>when_will_light_hit\<close> returns can change with the
  rounding of a last bit, and the constructor of \<open>timedelta\<close> turns a float number of days
  into microseconds by steps that differ between the implementations of Python. The arithmetic
  is therefore a parameter of the model: the product, the difference and the quotient of two
  floats, and the whole microseconds that the constructor makes of a float number of days.
  A float is the real number that it stands for.
\<close>

record arith =
  fmul :: "real \<Rightarrow> real \<Rightarrow> real"
  fsub :: "real \<Rightarrow> real \<Rightarrow> real"
  fdiv :: "real \<Rightarrow> real \<Rightarrow> real"
  days_to_us :: "real \<Rightarrow> int"

text \<open>
  The arithmetic without rounding errors: the operations are exact, and the constructor only
  rounds to the whole microsecond.
\<close>

definition exact_arith :: arith where
  "exact_arith =
     \<lparr> fmul = (\<lambda>a b. a * b),
       fsub = (\<lambda>a b. a - b),
       fdiv = (\<lambda>a b. a / b),
       days_to_us = (\<lambda>x. round_half_even (x * real_of_int US_PER_DAY)) \<rparr>"


text \<open>
  \<open>datetime.timedelta(days = x)\<close> for a float \<open>x\<close>: the duration in microseconds, and
  \<open>OverflowError\<close> when its normalised number of days is not within 999999999 of zero.
\<close>

definition timedelta_days :: "arith \<Rightarrow> real \<Rightarrow> error + timedelta" where
  "timedelta_days F x =
     (let us = days_to_us F x
      in if - 999999999 \<le> us div US_PER_DAY \<and> us div US_PER_DAY \<le> 999999999
         then Inr us else Inl OverflowError)"

text \<open>
  \<open>datetime + timedelta\<close>: \<open>OverflowError\<close> (date value out of range) when the moment
  reached is before year 1 or after year 9999.
\<close>

definition datetime_add :: "datetime \<Rightarrow> timedelta \<Rightarrow> error + datetime" where
  "datetime_add t td =
     (if valid_datetime (t + td) then Inr (t + td) else Inl OverflowError)"

section \<open>The functions on time\<close>

text \<open>
  \<open>years_since_date(date)\<close>. The reading of the system clock by
  \<open>datetime.datetime.now()\<close> is the argument \<open>now\<close>.
\<close>

definition years_since_date :: "date \<Rightarrow> datetime \<Rightarrow> real" where
  "years_since_date d now =
     total_seconds (date_sub (datetime_date now) d) / real_of_int SECS_IN_YEAR"

text \<open>
  The floats that the calls of \<open>years_since_date\<close> and of
  \<open>get_distance_in_lightyears\<close> return under an arithmetic \<open>F\<close>: the quotient and the
  product of those functions, computed by \<open>F\<close>.
\<close>

definition years_since_date_float :: "arith \<Rightarrow> date \<Rightarrow> datetime \<Rightarrow> real" where
  "years_since_date_float F d now =
     fdiv F (total_seconds (date_sub (datetime_date now) d)) (real_of_int SECS_IN_YEAR)"

definition get_distance_in_lightyears_float :: "arith \<Rightarrow> star \<Rightarrow> real" where
  "get_distance_in_lightyears_float F s = fmul F (distance s) LIGHT_YEARS_IN_1_PARSEC"

text \<open>
  \<open>Star.when_will_light_hit(emit_date)\<close> under the arithmetic \<open>F\<close>. The clock is read
  twice: \<open>now1\<close> is the reading inside \<open>years_since_date\<close>, \<open>now2\<close> the later one to
  which the duration is added.
\<close>

definition when_will_light_hit ::
  "arith \<Rightarrow> star \<Rightarrow> date \<Rightarrow> datetime \<Rightarrow> datetime \<Rightarrow> error + date" where
  "when_will_light_hit F s emit_date now1 now2 =
     (let light_years_traveled = years_since_date_float F emit_date now1
      in case timedelta_days F
                (fmul F (fsub F (get_distance_in_lightyears_float F s) light_years_traveled)
                   365.25) of
           Inl e \<Rightarrow> Inl e
         | Inr td \<Rightarrow>
             (case datetime_add now2 td of
                Inl e \<Rightarrow> Inl e
              | Inr t \<Rightarrow> Inr (datetime_date t)))"

section \<open>The catalogue query\<close>

text \<open>
  A row of the table \<open>stars\<close>: the eight columns in the order in which
  \<open>Star(*db_cursor.fetchone())\<close> hands them to the constructor. The column \<open>distance\<close> is the
  fifth. The table is the list of its rows in stored order.
\<close>

type_synonym row = "int \<times> py_value \<times> string \<times> string \<times> real \<times> real \<times> real option \<times> string"

fun row_distance :: "row \<Rightarrow> real" where
  "row_distance (database_id', hip_id', gl_id', proper_name', distance', rest) = distance'"

text \<open>\<open>Star(*row)\<close>\<close>

fun star_of_row :: "row \<Rightarrow> star" where
  "star_of_row (database_id', hip_id', gl_id', proper_name', distance', magnitude', color', constellation') =
     Star database_id' hip_id' gl_id' proper_name' distance' magnitude' color' constellation'"

text \<open>
  \<open>SELECT * FROM stars ORDER BY ABS(? - distance) LIMIT 1\<close> with the parameter \<open>p\<close>: the rows
  sorted by the key, the first one kept. Among rows of equal key the sort keeps the stored
  order.
\<close>

definition select_nearest :: "real \<Rightarrow> row list \<Rightarrow> row list" where
  "select_nearest p stars = take 1 (sort_key (\<lambda>r. \<bar>p - row_distance r\<bar>) stars)"

text \<open>\<open>cursor.fetchone()\<close>: the next row of the result, \<open>None\<close> when there is none.\<close>

definition fetchone :: "row list \<Rightarrow> row option" where
  "fetchone rows = (case rows of [] \<Rightarrow> None | r # _ \<Rightarrow> Some r)"

text \<open>
  \<open>get_star_from_years(light_years, db_cursor)\<close>. Unpacking \<open>None\<close> in \<open>Star(*None)\<close>
  raises \<open>TypeError\<close>.
\<close>

definition get_star_from_years :: "real \<Rightarrow> row list \<Rightarrow> error + star" where
  "get_star_from_years light_years stars =
     (case fetchone (select_nearest (light_years / LIGHT_YEARS_IN_1_PARSEC) stars) of
        None \<Rightarrow> Inl TypeError
      | Some r \<Rightarrow> Inr (star_of_row r))"

section \<open>The operations as the specification words them\<close>



section \<open>Properties of the Star entity\<close>

text \<open>
  Claim C3. \<open>get_color\<close> answers blue exactly when the colour index is present and below 0.35,
  yellow exactly when it is present and at least 0.35 but below 0.8, and red in every other
  case, an absent colour index included. An index of exactly 0.35 is yellow, one of exactly
  0.8 is red.
\<close>

theorem get_color_classes:
  "(get_color s = ''blue'' \<longleftrightarrow> (\<exists>c. color s = Some c \<and> c < 0.35)) \<and>
   (get_color s = ''yellow'' \<longleftrightarrow> (\<exists>c. color s = Some c \<and> 0.35 \<le> c \<and> c < 0.8)) \<and>
   (get_color s = ''red'' \<longleftrightarrow> \<not> (\<exists>c. color s = Some c \<and> c < 0.8)) \<and>
   get_color (s\<lparr>color := Some 0.35\<rparr>) = ''yellow'' \<and>
   get_color (s\<lparr>color := Some 0.8\<rparr>) = ''red'' \<and>
   get_color (s\<lparr>color := None\<rparr>) = ''red''"
  by (cases "color s") (auto simp: get_color_def)

text \<open>
  Claim C8. \<open>is_visible\<close> holds exactly when the apparent magnitude is strictly below 6.5:
  magnitude 6.4 is visible, magnitudes 6.5 and 6.6 are not.
\<close>

theorem is_visible_threshold:
  "(is_visible s \<longleftrightarrow> magnitude s < 6.5) \<and>
   is_visible (s\<lparr>magnitude := 6.4\<rparr>) \<and>
   \<not> is_visible (s\<lparr>magnitude := 6.5\<rparr>) \<and>
   \<not> is_visible (s\<lparr>magnitude := 6.6\<rparr>)"
  by (simp add: is_visible_def)

lemma str_nat_32349: "str_nat 32349 = ''32349''"
  by (simp add: str_nat.simps[of 32349] str_nat.simps[of 3234] str_nat.simps[of 323]
      str_nat.simps[of 32] str_nat.simps[of 3] digit_char_def)

text \<open>
  Claim C7. For a star built by the constructor, \<open>get_identifier\<close> is the prefix \<open>HIP\<close> and a
  space followed by the Hipparcos id when that id is present, and the Gliese id unchanged when
  it is absent. The id 32349, as text or as a number, gives \<open>HIP 32349\<close>; without it the
  Gliese id \<open>Gl 244\<close> is returned as it is.
\<close>

theorem get_identifier_preference:
  "(py_ne_empty h \<longrightarrow>
      get_identifier (Star i h g n d m c k) = ''HIP '' @ str_py h) \<and>
   (\<not> py_ne_empty h \<longrightarrow> get_identifier (Star i h g n d m c k) = g) \<and>
   get_identifier (Star i (PyStr ''32349'') g n d m c k) = ''HIP 32349'' \<and>
   get_identifier (Star i (PyInt 32349) g n d m c k) = ''HIP 32349'' \<and>
   get_identifier (Star i (PyStr []) ''Gl 244'' n d m c k) = ''Gl 244''"
  by (simp add: get_identifier_def Star_def str_int_def str_nat_32349)

theorem get_identifier_preference_witness:
  "py_ne_empty (PyInt 32349) \<and>
   get_identifier (Star 32263 (PyInt 32349) ''Gl 244'' ''Sirius'' 2.6371 (- 1.44) (Some 0.009) ''CMa'')
     = ''HIP 32349'' \<and>
   \<not> py_ne_empty (PyStr []) \<and>
   get_identifier (Star 32263 (PyStr []) ''Gl 244'' ''Sirius'' 2.6371 (- 1.44) (Some 0.009) ''CMa'')
     = ''Gl 244''"
  using get_identifier_preference
          [of "PyInt 32349" 32263 "''Gl 244''" "''Sirius''" "2.6371" "- 1.44" "Some 0.009" "''CMa''"]
        get_identifier_preference
          [of "PyStr []" 32263 "''Gl 244''" "''Sirius''" "2.6371" "- 1.44" "Some 0.009" "''CMa''"]
  by (simp add: str_int_def str_nat_32349)

text \<open>
  Claim C9. Converting a distance from light years to parsecs, as \<open>get_star_from_years\<close> does
  for its query (a division by 3.26163344), and back to light years, as
  \<open>get_distance_in_lightyears\<close> does (a multiplication by 3.26163344), gives the distance
  again. In exact arithmetic this holds for every real number, the non-negative ones among them.
\<close>

theorem parsec_lightyear_roundtrip:
  "get_distance_in_lightyears (s\<lparr>distance := x / LIGHT_YEARS_IN_1_PARSEC\<rparr>) = x \<and>
   x / 3.26163344 * 3.26163344 = x \<and>
   LIGHT_YEARS_IN_1_PARSEC = 3.26163344"
  by (simp add: get_distance_in_lightyears_def LIGHT_YEARS_IN_1_PARSEC_def)

section \<open>Properties of the catalogue query\<close>

lemma sort_key_Nil_iff: "sort_key f xs = [] \<longleftrightarrow> xs = []"
  using length_sort[of f xs] by (metis length_0_conv)

lemma fetchone_select_nearest_None:
  "fetchone (select_nearest p stars) = None \<longleftrightarrow> stars = []"
  by (cases "sort_key (\<lambda>r. \<bar>p - row_distance r\<bar>) stars")
     (use sort_key_Nil_iff[of "\<lambda>r. \<bar>p - row_distance r\<bar>" stars] in
       \<open>auto simp: fetchone_def select_nearest_def\<close>)

text \<open>
  Claim C5. On a catalogue without rows \<open>get_star_from_years\<close> fails, whatever the distance
  asked for: \<open>fetchone\<close> returns \<open>None\<close> and unpacking it raises \<open>TypeError\<close>, the failure
  that the specification calls NotFound. It is the only failure of the function: on a catalogue
  with a row it returns a star.
\<close>

theorem get_star_from_years_empty:
  "get_star_from_years light_years [] = Inl TypeError \<and>
   ((\<exists>e. get_star_from_years light_years stars = Inl e) \<longleftrightarrow> stars = [])"
  using fetchone_select_nearest_None[of "light_years / LIGHT_YEARS_IN_1_PARSEC" stars]
  by (auto simp: get_star_from_years_def fetchone_def select_nearest_def split: option.splits)






section \<open>Properties of the constellation lookup\<close>

lemma CONST_ABBREV_length: "length CONST_ABBREV = 88"
  by (simp add: CONST_ABBREV_def)

lemma CONST_ABBREV_distinct: "distinct (map fst CONST_ABBREV)"
  by (simp add: CONST_ABBREV_def)

lemma CONST_ABBREV_no_empty_key: "map_of CONST_ABBREV [] = None"
  by (simp add: CONST_ABBREV_def)

text \<open>
  Claim C4. The table has 88 entries with 88 different abbreviations. \<open>get_constellation\<close>
  returns the full name that the table records for the star's code when the code is one of
  them, and raises \<open>KeyError\<close> when it is not.
\<close>

theorem get_constellation_lookup:
  "length CONST_ABBREV = 88 \<and> distinct (map fst CONST_ABBREV) \<and>
   (constellation s \<in> fst ` set CONST_ABBREV \<longrightarrow>
      (\<exists>n. (constellation s, n) \<in> set CONST_ABBREV \<and> get_constellation s = Inr n)) \<and>
   (constellation s \<notin> fst ` set CONST_ABBREV \<longrightarrow> get_constellation s = Inl KeyError)"
proof -
  have found: "\<exists>n. (constellation s, n) \<in> set CONST_ABBREV \<and> get_constellation s = Inr n"
    if "constellation s \<in> fst ` set CONST_ABBREV"
  proof -
    from that obtain n where n: "map_of CONST_ABBREV (constellation s) = Some n"
      by (metis map_of_eq_None_iff not_Some_eq)
    then have "(constellation s, n) \<in> set CONST_ABBREV"
      by (rule map_of_SomeD)
    with n show ?thesis
      by (auto simp: get_constellation_def)
  qed
  have missing: "get_constellation s = Inl KeyError"
    if "constellation s \<notin> fst ` set CONST_ABBREV"
  proof -
    from that have "map_of CONST_ABBREV (constellation s) = None"
      by (simp add: map_of_eq_None_iff)
    then show ?thesis
      by (simp add: get_constellation_def)
  qed
  from found missing CONST_ABBREV_length CONST_ABBREV_distinct show ?thesis
    by blast
qed

lemma Ori_key: "(''Ori'', ''Orion'') \<in> set CONST_ABBREV"
  by (simp add: CONST_ABBREV_def)

lemma Xyz_no_key: "''Xyz'' \<notin> fst ` set CONST_ABBREV"
  by (simp add: CONST_ABBREV_def)

theorem get_constellation_lookup_witness:
  "''Ori'' \<in> fst ` set CONST_ABBREV \<and>
   get_constellation (Star 27919 (PyInt 27989) [] ''Betelgeuse'' 152.6718 0.45 (Some 1.5) ''Ori'')
     = Inr ''Orion'' \<and>
   ''Xyz'' \<notin> fst ` set CONST_ABBREV \<and>
   get_constellation (Star 27919 (PyInt 27989) [] ''Betelgeuse'' 152.6718 0.45 (Some 1.5) ''Xyz'')
     = Inl KeyError"
proof -
  let ?s = "Star 27919 (PyInt 27989) [] ''Betelgeuse'' 152.6718 0.45 (Some 1.5) ''Ori''"
  let ?t = "Star 27919 (PyInt 27989) [] ''Betelgeuse'' 152.6718 0.45 (Some 1.5) ''Xyz''"
  have cs: "constellation ?s = ''Ori''" and ct: "constellation ?t = ''Xyz''"
    by (simp_all add: Star_def)
  have key: "''Ori'' \<in> fst ` set CONST_ABBREV"
    using Ori_key by force
  with get_constellation_lookup[of ?s] cs
  obtain n where n: "(''Ori'', n) \<in> set CONST_ABBREV" "get_constellation ?s = Inr n"
    by auto
  from n(1) Ori_key CONST_ABBREV_distinct have "n = ''Orion''"
    by (meson eq_key_imp_eq_value)
  moreover from get_constellation_lookup[of ?t] ct Xyz_no_key
  have "get_constellation ?t = Inl KeyError"
    by simp
  ultimately show ?thesis
    using key n(2) Xyz_no_key by simp
qed

text \<open>
  Claim C10. For a star with no constellation recorded, that is one whose \<open>has_constellation\<close>
  is false because the code is the empty string, \<open>get_constellation\<close> raises \<open>KeyError\<close>
  and does not return an empty string: the empty string is no key of the table.
\<close>

theorem get_constellation_without_code:
  "\<not> has_constellation s \<Longrightarrow> get_constellation s = Inl KeyError"
  by (simp add: has_constellation_def get_constellation_def CONST_ABBREV_no_empty_key)

theorem get_constellation_without_code_witness:
  "\<not> has_constellation (Star 1 (PyStr []) ''Gl 1'' [] 4.36 11.5 None []) \<and>
   get_constellation (Star 1 (PyStr []) ''Gl 1'' [] 4.36 11.5 None []) = Inl KeyError"
proof -
  have h: "\<not> has_constellation (Star 1 (PyStr []) ''Gl 1'' [] 4.36 11.5 None [])"
    by (simp add: has_constellation_def Star_def)
  from h get_constellation_without_code[OF h] show ?thesis
    by simp
qed

section \<open>Properties of the functions on time\<close>


lemma round_half_even_ge:
  assumes "real_of_int n \<le> x"
  shows "n \<le> round_half_even x"
proof -
  from assms have "n \<le> \<lfloor>x\<rfloor>"
    by (simp add: le_floor_iff)
  then show ?thesis
    by (simp add: round_half_even_def Let_def)
qed






lemma fmul_exact: "fmul exact_arith a b = a * b"
  by (simp add: exact_arith_def)


lemma fdiv_exact: "fdiv exact_arith a b = a / b"
  by (simp add: exact_arith_def)


text \<open>
  Under the exact arithmetic the floats of the two calls are the values of \<open>years_since_date\<close>
  and \<open>get_distance_in_lightyears\<close>.
\<close>

lemma years_since_date_float_exact:
  "years_since_date_float exact_arith d now = years_since_date d now"
  by (simp add: years_since_date_float_def years_since_date_def fdiv_exact)

lemma get_distance_in_lightyears_float_exact:
  "get_distance_in_lightyears_float exact_arith s = get_distance_in_lightyears s"
  by (simp add: get_distance_in_lightyears_float_def get_distance_in_lightyears_def fmul_exact)


lemma total_seconds_date_sub:
  "total_seconds (date_sub d1 d2) = real_of_int ((d1 - d2) * 86400)"
  by (simp add: total_seconds_def date_sub_def US_PER_DAY_def)

lemma SECS_IN_YEAR_real: "real_of_int SECS_IN_YEAR = 31557600"
  by (simp add: SECS_IN_YEAR_def)

lemma when_will_light_hit_cases:
  fixes F s emit_date now1 now2
  defines "us \<equiv> days_to_us F
     (fmul F (fsub F (fmul F (distance s) 3.26163344)
                (fdiv F (real_of_int ((datetime_date now1 - emit_date) * 86400)) 31557600))
        365.25)"
  shows "when_will_light_hit F s emit_date now1 now2 =
     (if - 999999999 \<le> us div 86400000000 \<and> us div 86400000000 \<le> 999999999 \<and>
         1 \<le> (now2 + us) div 86400000000 \<and> (now2 + us) div 86400000000 \<le> 3652059
      then Inr ((now2 + us) div 86400000000) else Inl OverflowError)"
proof -
  have t: "years_since_date_float F emit_date now1
      = fdiv F (real_of_int ((datetime_date now1 - emit_date) * 86400)) 31557600"
    by (simp only: years_since_date_float_def total_seconds_date_sub SECS_IN_YEAR_real)
  have d: "get_distance_in_lightyears_float F s = fmul F (distance s) 3.26163344"
    by (simp only: get_distance_in_lightyears_float_def LIGHT_YEARS_IN_1_PARSEC_def)
  have "when_will_light_hit F s emit_date now1 now2 =
     (if - 999999999 \<le> us div US_PER_DAY \<and> us div US_PER_DAY \<le> 999999999
      then if valid_datetime (now2 + us) then Inr (datetime_date (now2 + us))
           else Inl OverflowError
      else Inl OverflowError)"
    unfolding when_will_light_hit_def timedelta_days_def datetime_add_def Let_def t d us_def
    by simp
  then show ?thesis
    by (simp add: valid_datetime_def valid_date_def datetime_date_def US_PER_DAY_def)
qed



lemma noon_date: "datetime_date 63929476800000000 = 739924"
  by (simp add: datetime_date_def US_PER_DAY_def)





text \<open>
  The overflow is no matter of rounding: for the star at 100000 parsecs, the emit date 730120
  and the clock at noon of day 739924, the function raises \<open>OverflowError\<close> under every
  arithmetic that returns at least half and at most twice the exact result of an operation
  whose exact result lies between 1 and 1000000000.
\<close>

lemma far_star_overflows:
  assumes mul: "\<And>a b. 1 \<le> a * b \<Longrightarrow> a * b \<le> 1000000000 \<Longrightarrow>
      a * b / 2 \<le> fmul F a b \<and> fmul F a b \<le> 2 * (a * b)"
    and sub: "\<And>a b. 1 \<le> a - b \<Longrightarrow> a - b \<le> 1000000000 \<Longrightarrow>
      (a - b) / 2 \<le> fsub F a b \<and> fsub F a b \<le> 2 * (a - b)"
    and quot: "\<And>a b. 1 \<le> a / b \<Longrightarrow> a / b \<le> 1000000000 \<Longrightarrow>
      a / b / 2 \<le> fdiv F a b \<and> fdiv F a b \<le> 2 * (a / b)"
    and days: "\<And>x. 1 \<le> x \<Longrightarrow> x * 86400000000 / 2 \<le> real_of_int (days_to_us F x)"
  shows "when_will_light_hit F (Star 2 (PyStr []) ''Gl 2'' [] 100000 12 None []) 730120
     63929476800000000 63929476800000000 = Inl OverflowError"
proof -
  let ?s = "Star 2 (PyStr []) ''Gl 2'' [] 100000 12 None []"
  define ly where "ly = fmul F (distance ?s) 3.26163344"
  define tr where "tr = fdiv F
      (real_of_int ((datetime_date 63929476800000000 - 730120) * 86400)) 31557600"
  define re where "re = fsub F ly tr"
  define x where "x = fmul F re 365.25"
  define us where "us = days_to_us F x"
  have "distance ?s * 3.26163344 = 326163.344"
    by (simp add: Star_def)
  with mul[of "distance ?s" "3.26163344"]
  have ly: "163081 \<le> ly \<and> ly \<le> 652327"
    unfolding ly_def by simp
  have "real_of_int ((datetime_date 63929476800000000 - 730120) * 86400) / 31557600
      = 39216 / 1461"
    by (simp add: noon_date)
  with quot[of "real_of_int ((datetime_date 63929476800000000 - 730120) * 86400)" "31557600"]
  have tr: "13 \<le> tr \<and> tr \<le> 54"
    unfolding tr_def by simp
  from ly tr have "1 \<le> ly - tr \<and> ly - tr \<le> 1000000000"
    by simp
  with sub[of ly tr] ly tr
  have re: "81513 \<le> re \<and> re \<le> 1304654"
    unfolding re_def by simp
  from re have "1 \<le> re * 365.25 \<and> re * 365.25 \<le> 1000000000"
    by simp
  with mul[of re "365.25"] re
  have x: "14886311 \<le> x"
    unfolding x_def by simp
  with days[of x] have "14886311 * 86400000000 / 2 \<le> real_of_int us"
    unfolding us_def by simp
  then have "real_of_int 643088635200000000 \<le> real_of_int us"
    by simp
  then have "643088635200000000 \<le> us"
    by (simp only: of_int_le_iff)
  then have "(63929476800000000 + 643088635200000000) div 86400000000
      \<le> (63929476800000000 + us) div 86400000000"
    by (intro zdiv_mono1) simp_all
  then have "3652059 < (63929476800000000 + us) div 86400000000"
    by simp
  then show ?thesis
    unfolding when_will_light_hit_cases
    by (simp add: us_def x_def re_def tr_def ly_def)
qed


end
